theory Spec2Isabelle
  imports Main "HOL-Library.Word"
begin

unbundle bit_operations_syntax

section \<open>Data model of swap/cheque.go\<close>

type_synonym byte = "8 word"
type_synonym uint64 = "64 word"

text \<open>
  \<^verbatim>\<open>common.Address\<close> of go-ethereum is the array type \<^verbatim>\<open>[20]byte\<close>: a value of
  exactly twenty bytes, compared with \<^verbatim>\<open>!=\<close> element by element. The method
  \<^verbatim>\<open>Bytes()\<close> returns the twenty bytes as a slice.
\<close>

typedef address = "{bs :: byte list. length bs = 20}"
  morphisms Bytes Address
  by (rule exI [of _ "replicate 20 0"]) simp

setup_lifting type_definition_address

instantiation address :: equal
begin

lift_definition equal_address :: "address \<Rightarrow> address \<Rightarrow> bool" is
  "\<lambda>a b. a = b" .

instance
  by standard (transfer, simp)

end

text \<open>
  Modelled from the spec: the declaration of the struct \<^verbatim>\<open>Cheque\<close> is not part of
  cheque.go. The fields are the ones cheque.go reads (\<^verbatim>\<open>Contract\<close>,
  \<^verbatim>\<open>Beneficiary\<close>, \<^verbatim>\<open>Serial\<close>, \<^verbatim>\<open>Amount\<close>, \<^verbatim>\<open>Timeout\<close>, \<^verbatim>\<open>Honey\<close>,
  \<^verbatim>\<open>Signature\<close>), with the types the spec's data model gives them: two addresses,
  unsigned 64-bit integers, and a byte slice that is \<^verbatim>\<open>nil\<close> before signing.
  A Go slice is \<^verbatim>\<open>nil\<close> (\<open>None\<close>) or holds a byte sequence (\<open>Some bs\<close>, where
  \<open>bs\<close> may be empty).
\<close>

record Cheque =
  Contract :: address
  Beneficiary :: address
  Serial :: uint64
  Amount :: uint64
  Timeout :: uint64
  Honey :: uint64
  Signature :: "byte list option"

text \<open>
  Modelled from the spec: the declaration of the struct \<^verbatim>\<open>Peer\<close> is not part of
  cheque.go. cheque.go reads its fields \<^verbatim>\<open>contractAddress\<close> and \<^verbatim>\<open>beneficiary\<close>,
  both compared with addresses.
\<close>

record Peer =
  contractAddress :: address
  beneficiary :: address

text \<open>
  The errors cheque.go returns. Each \<^verbatim>\<open>fmt.Errorf\<close> call is a constructor that
  carries the values formatted into the message; \<^verbatim>\<open>ErrInvalidChequeSignature\<close> is
  the package-level error value; \<open>ErrCrypto\<close> stands for an error handed back by
  the go-ethereum crypto package; \<open>PanicIndexOutOfRange\<close> is the run-time panic
  of an indexing expression outside the slice.
\<close>

datatype error =
    ErrSigNil
  | ErrSigLength nat
  | ErrInvalidChequeSignature
  | ErrCrypto string
  | ErrWrongContract address address
  | ErrWrongBeneficiary address address
  | ErrWrongTimeout uint64
  | ErrSerialNotLarger uint64 uint64
  | ErrAmountNotLarger uint64 uint64
  | ErrUnexpectedAmount uint64 uint64
  | PanicIndexOutOfRange

text \<open>
  The primitives of \<^verbatim>\<open>github.com/ethereum/go-ethereum/crypto\<close> that cheque.go calls
  are not code of this repository; they are parameters of the model.
  \<open>PublicKey\<close> is the field \<^verbatim>\<open>PublicKey\<close> of \<^verbatim>\<open>ecdsa.PrivateKey\<close>.
\<close>

record ('prv, 'pub) crypto =
  Keccak256 :: "byte list \<Rightarrow> byte list"
  crypto_Sign :: "byte list \<Rightarrow> 'prv \<Rightarrow> error + byte list"
  SigToPub :: "byte list \<Rightarrow> byte list \<Rightarrow> error + 'pub"
  PubkeyToAddress :: "'pub \<Rightarrow> address"
  PublicKey :: "'prv \<Rightarrow> 'pub"

section \<open>Library functions used by cheque.go\<close>

text \<open>
  \<^verbatim>\<open>binary.BigEndian.PutUint64(b, v)\<close> stores \<^verbatim>\<open>byte(v >> 56)\<close>, ..., \<^verbatim>\<open>byte(v)\<close>
  into \<^verbatim>\<open>b[0]\<close>, ..., \<^verbatim>\<open>b[7]\<close>. It panics when \<^verbatim>\<open>b\<close> is shorter than eight
  bytes; cheque.go calls it only on \<^verbatim>\<open>buf[24:]\<close> of a 32-byte buffer, which has
  eight bytes (lemma \<open>uint64Bytes32_slice_length\<close> below).
\<close>

definition PutUint64 :: "byte list \<Rightarrow> uint64 \<Rightarrow> byte list" where
  "PutUint64 b v =
     b[0 := ucast (drop_bit 56 v),
       1 := ucast (drop_bit 48 v),
       2 := ucast (drop_bit 40 v),
       3 := ucast (drop_bit 32 v),
       4 := ucast (drop_bit 24 v),
       5 := ucast (drop_bit 16 v),
       6 := ucast (drop_bit 8 v),
       7 := ucast v]"

text \<open>\<^verbatim>\<open>make([]byte, 32)\<close> followed by \<^verbatim>\<open>PutUint64(buf[24:], v)\<close>: the write goes
  through the sub-slice into positions 24 to 31 of the buffer.\<close>

definition uint64Bytes32 :: "uint64 \<Rightarrow> byte list" where
  "uint64Bytes32 v =
     (let buf = replicate 32 (0 :: byte)
      in take 24 buf @ PutUint64 (drop 24 buf) v)"

text \<open>The verb \<^verbatim>\<open>%d\<close> of \<^verbatim>\<open>fmt.Sprintf\<close> on a non-negative \<^verbatim>\<open>int\<close>: its decimal
  digits in ASCII, without leading zeros.\<close>

function fmt_d :: "nat \<Rightarrow> byte list" where
  "fmt_d n = (if n < 10 then [48 + of_nat n] else fmt_d (n div 10) @ [48 + of_nat (n mod 10)])"
  by pat_completeness auto
termination
  by (relation "measure id") auto

definition ascii :: "string \<Rightarrow> byte list" where
  "ascii s = map (\<lambda>c. of_nat (of_char c)) s"

text \<open>\<^verbatim>\<open>bytes.Equal(a, b)\<close> compares the contents; a \<^verbatim>\<open>nil\<close> slice equals an
  empty one.\<close>

definition sliceBytes :: "byte list option \<Rightarrow> byte list" where
  "sliceBytes s = (case s of None \<Rightarrow> [] | Some bs \<Rightarrow> bs)"

definition bytes_Equal :: "byte list option \<Rightarrow> byte list option \<Rightarrow> bool" where
  "bytes_Equal a b = (sliceBytes a = sliceBytes b)"

section \<open>The functions of cheque.go\<close>

text \<open>
  \<^verbatim>\<open>encodeForSignature\<close>: three 32-byte buffers receive serial, amount and timeout
  in their last eight bytes; the result is the contract's bytes followed by the
  beneficiary's and the three buffers. \<^verbatim>\<open>Contract.Bytes()\<close> has length and
  capacity 20, so each \<^verbatim>\<open>append\<close> allocates and no field of the cheque changes.
\<close>

definition encodeForSignature :: "Cheque \<Rightarrow> byte list" where
  "encodeForSignature cheque =
     (let serialBytes = uint64Bytes32 (Serial cheque);
          amountBytes = uint64Bytes32 (Amount cheque);
          timeoutBytes = uint64Bytes32 (Timeout cheque);
          input = Bytes (Contract cheque);
          input = input @ Bytes (Beneficiary cheque);
          input = input @ serialBytes;
          input = input @ amountBytes;
          input = input @ timeoutBytes
      in input)"

text \<open>\<^verbatim>\<open>sigHash\<close>: Keccak256 of the encoding, prefixed as \<^verbatim>\<open>eth_sign\<close> does with
  \<^verbatim>\<open>"\x19Ethereum Signed Message:\n"\<close> and the decimal length of the hash, hashed
  again.\<close>

definition sigHash :: "('prv, 'pub) crypto \<Rightarrow> Cheque \<Rightarrow> byte list" where
  "sigHash c cheque =
     (let encoded = encodeForSignature cheque;
          input = Keccak256 c encoded;
          withPrefix = [0x19] @ ascii ''Ethereum Signed Message:'' @ [0x0A]
                       @ fmt_d (length input) @ input
      in Keccak256 c withPrefix)"

text \<open>
  \<^verbatim>\<open>VerifySig\<close>. The first component of \<open>VerifySig_run\<close> lists the calls of
  \<^verbatim>\<open>crypto.SigToPub\<close> the function makes (hash and signature passed), the second
  is the error it returns (\<open>Inr ()\<close> for \<^verbatim>\<open>nil\<close>). The signature is copied, and
  the copy's last byte is reduced by 27 in \<^verbatim>\<open>byte\<close> arithmetic.
\<close>

definition VerifySig_run ::
  "('prv, 'pub) crypto \<Rightarrow> Cheque \<Rightarrow> address \<Rightarrow> (byte list \<times> byte list) list \<times> (error + unit)" where
  "VerifySig_run c cheque expectedSigner =
     (let sigHash = sigHash c cheque
      in case Signature cheque of
           None \<Rightarrow> ([], Inl ErrSigNil)
         | Some signature \<Rightarrow>
             if length signature \<noteq> 65 then ([], Inl (ErrSigLength (length signature)))
             else
               let sig = signature;
                   sig = sig[length sig - 1 := sig ! (length sig - 1) - 27]
               in ([(sigHash, sig)],
                   case SigToPub c sigHash sig of
                     Inl err \<Rightarrow> Inl err
                   | Inr pubKey \<Rightarrow>
                       if PubkeyToAddress c pubKey \<noteq> expectedSigner
                       then Inl ErrInvalidChequeSignature
                       else Inr ()))"

definition VerifySig :: "('prv, 'pub) crypto \<Rightarrow> Cheque \<Rightarrow> address \<Rightarrow> error + unit" where
  "VerifySig c cheque expectedSigner = snd (VerifySig_run c cheque expectedSigner)"

text \<open>\<^verbatim>\<open>Sign\<close>: the signature of \<^verbatim>\<open>crypto.Sign\<close> over the hash, its last byte
  increased by 27. Indexing the last byte of an empty slice panics.\<close>

definition Sign :: "('prv, 'pub) crypto \<Rightarrow> Cheque \<Rightarrow> 'prv \<Rightarrow> error + byte list" where
  "Sign c cheque prv =
     (case crypto_Sign c (sigHash c cheque) prv of
        Inl err \<Rightarrow> Inl err
      | Inr sig \<Rightarrow>
          if sig = [] then Inl PanicIndexOutOfRange
          else Inr (sig[length sig - 1 := sig ! (length sig - 1) + 27]))"

text \<open>\<^verbatim>\<open>Equal\<close>: the chain of comparisons of the source, in its order.\<close>

definition Equal :: "Cheque \<Rightarrow> Cheque \<Rightarrow> bool" where
  "Equal cheque other =
     (if Serial cheque \<noteq> Serial other then False
      else if Beneficiary cheque \<noteq> Beneficiary other then False
      else if Amount cheque \<noteq> Amount other then False
      else if Timeout cheque \<noteq> Timeout other then False
      else if Honey cheque \<noteq> Honey other then False
      else if \<not> bytes_Equal (Signature cheque) (Signature other) then False
      else True)"

text \<open>\<^verbatim>\<open>verifyChequeProperties\<close>: contract, signature, beneficiary, timeout, in
  this order; the first failing check returns its error.\<close>

definition verifyChequeProperties ::
  "('prv, 'pub) crypto \<Rightarrow> Cheque \<Rightarrow> Peer \<Rightarrow> address \<Rightarrow> error + unit" where
  "verifyChequeProperties c cheque p expectedBeneficiary =
     (if Contract cheque \<noteq> contractAddress p
      then Inl (ErrWrongContract (contractAddress p) (Contract cheque))
      else case VerifySig c cheque (beneficiary p) of
        Inl err \<Rightarrow> Inl err
      | Inr _ \<Rightarrow>
          if Beneficiary cheque \<noteq> expectedBeneficiary
          then Inl (ErrWrongBeneficiary expectedBeneficiary (Beneficiary cheque))
          else if Timeout cheque \<noteq> 0
          then Inl (ErrWrongTimeout (Timeout cheque))
          else Inr ())"

text \<open>
  \<^verbatim>\<open>verifyChequeAgainstLast\<close>: \<open>lastCheque\<close> is a pointer that may be \<^verbatim>\<open>nil\<close>
  (\<open>None\<close>; \<open>Some lastC\<close> otherwise). The block guarded by
  \<^verbatim>\<open>lastCheque != nil\<close> either returns an error or updates \<open>actualAmount\<close>; the
  comparison with \<open>expectedAmount\<close> follows it. Comparisons and subtraction are
  those of \<^verbatim>\<open>uint64\<close>: the subtraction of words wraps around as Go's does. An
  error return of the source, \<^verbatim>\<open>(0, err)\<close>, is \<open>Inl err\<close>.
\<close>

definition verifyChequeAgainstLast ::
  "Cheque \<Rightarrow> Cheque option \<Rightarrow> uint64 \<Rightarrow> error + uint64" where
  "verifyChequeAgainstLast cheque lastCheque expectedAmount =
     (let actualAmount = Amount cheque
      in case (case lastCheque of
                 None \<Rightarrow> Inr actualAmount
               | Some lastC \<Rightarrow>
                   if Serial cheque \<le> Serial lastC
                   then Inl (ErrSerialNotLarger (Serial lastC) (Serial cheque))
                   else if Amount cheque \<le> Amount lastC
                   then Inl (ErrAmountNotLarger (Amount lastC) (Amount cheque))
                   else Inr (actualAmount - Amount lastC)) of
           Inl err \<Rightarrow> Inl err
         | Inr actualAmount \<Rightarrow>
             if expectedAmount \<noteq> actualAmount
             then Inl (ErrUnexpectedAmount expectedAmount actualAmount)
             else Inr actualAmount)"

section \<open>Reading of the specification's wording\<close>

text \<open>The number a byte sequence denotes as a big-endian integer: the first byte is
  the most significant.\<close>

definition bigEndianValue :: "byte list \<Rightarrow> nat" where
  "bigEndianValue bs = foldl (\<lambda>acc b. 256 * acc + unat b) 0 bs"

text \<open>"\<open>v\<close> as 32-byte big-endian integer; the 64-bit integer occupies the low 8
  bytes of its 32-byte field, high-order 24 bytes zero".\<close>

definition isBigEndian32 :: "byte list \<Rightarrow> uint64 \<Rightarrow> bool" where
  "isBigEndian32 bs v \<longleftrightarrow>
     length bs = 32 \<and> bigEndianValue bs = unat v \<and>
     take 24 bs = replicate 24 0 \<and> bigEndianValue (drop 24 bs) = unat v"

text \<open>The five fields the encoding is said to depend on.\<close>

definition signedFields :: "Cheque \<Rightarrow> address \<times> address \<times> uint64 \<times> uint64 \<times> uint64" where
  "signedFields cheque =
     (Contract cheque, Beneficiary cheque, Serial cheque, Amount cheque, Timeout cheque)"

section \<open>Concrete inputs\<close>

text \<open>The cheques of the specification's scenarios: contract C, beneficiary B,
  serial 1 and amount 100; its successor with serial 2 and amount 150; a cheque
  that repeats serial 2 with amount 200.\<close>

lift_definition addrC :: address is "replicate 20 0xC1"
  by simp

lift_definition addrB :: address is "replicate 20 0xB2"
  by simp

definition cheque1 :: Cheque where
  "cheque1 = \<lparr>Contract = addrC, Beneficiary = addrB, Serial = 1, Amount = 100,
              Timeout = 0, Honey = 0, Signature = None\<rparr>"

definition cheque2 :: Cheque where
  "cheque2 = \<lparr>Contract = addrC, Beneficiary = addrB, Serial = 2, Amount = 150,
              Timeout = 0, Honey = 0, Signature = None\<rparr>"

definition cheque3 :: Cheque where
  "cheque3 = \<lparr>Contract = addrC, Beneficiary = addrB, Serial = 2, Amount = 200,
              Timeout = 0, Honey = 0, Signature = None\<rparr>"

text \<open>
  A stand-in for the crypto package, used only to evaluate theorems at concrete
  inputs; it is not a model of secp256k1. A key is twenty bytes and is its own
  public key and address. A signature is the key, 44 bytes of the hash and the
  recovery byte 0; recovery checks the length, the recovery byte and the hash.
\<close>

definition padTo :: "nat \<Rightarrow> byte list \<Rightarrow> byte list" where
  "padTo n bs = take n (bs @ replicate n 0)"

definition toyHash :: "byte list \<Rightarrow> byte list" where
  "toyHash bs = padTo 32 bs"

definition toySign :: "byte list \<Rightarrow> byte list \<Rightarrow> error + byte list" where
  "toySign h prv = Inr (padTo 20 prv @ padTo 44 h @ [0])"

definition toySigToPub :: "byte list \<Rightarrow> byte list \<Rightarrow> error + byte list" where
  "toySigToPub h sig =
     (if length sig = 65 \<and> last sig < 2 \<and> take 44 (drop 20 sig) = padTo 44 h
      then Inr (take 20 sig)
      else Inl (ErrCrypto ''recovery failed''))"

definition toyAddress :: "byte list \<Rightarrow> address" where
  "toyAddress pub = Address (padTo 20 pub)"

definition toyCrypto :: "(byte list, byte list) crypto" where
  "toyCrypto = \<lparr>Keccak256 = toyHash, crypto_Sign = toySign, SigToPub = toySigToPub,
                PubkeyToAddress = toyAddress, PublicKey = padTo 20\<rparr>"

definition keyK :: "byte list" where
  "keyK = replicate 20 0x4B"

definition addrK :: address where
  "addrK = toyAddress keyK"

text \<open>The peer of scenario A: its contract is C and its signing identity is the
  address of the key K. \<open>toySigned\<close> attaches to a cheque the signature \<open>Sign\<close>
  returns for K.\<close>

definition peer1 :: Peer where
  "peer1 = \<lparr>contractAddress = addrC, beneficiary = addrK\<rparr>"

definition toySigned :: "Cheque \<Rightarrow> Cheque" where
  "toySigned cheque =
     cheque\<lparr>Signature :=
       (case Sign toyCrypto cheque keyK of Inl err \<Rightarrow> None | Inr sig \<Rightarrow> Some sig)\<rparr>"

section \<open>The encoding\<close>

lemma length_padTo: "length (padTo n bs) = n"
  by (simp add: padTo_def)

text \<open>The stand-in address function is executable through its representation.\<close>

lemma Bytes_toyAddress [code abstract]: "Bytes (toyAddress pub) = padTo 20 pub"
  by (simp add: toyAddress_def Address_inverse length_padTo)

text \<open>The 32-byte field: \<open>PutUint64\<close> receives a slice of eight bytes, and the
  field is 24 zero bytes followed by the eight bytes of the value, most significant
  first.\<close>

lemma list_update_Cons_numeral: "(x # xs)[numeral k := y] = x # xs[pred_numeral k := y]"
  by (simp add: numeral_eq_Suc)

lemma replicate8: "replicate 8 x = [x, x, x, x, x, x, x, x]"
  by (simp add: numeral_eq_Suc)

lemma uint64Bytes32_slice_length: "length (drop 24 (replicate 32 (0 :: byte))) = 8"
  by simp

lemma PutUint64_zero8:
  "PutUint64 (replicate 8 0) v =
     [ucast (drop_bit 56 v), ucast (drop_bit 48 v), ucast (drop_bit 40 v), ucast (drop_bit 32 v),
      ucast (drop_bit 24 v), ucast (drop_bit 16 v), ucast (drop_bit 8 v), ucast v]"
  by (simp add: PutUint64_def replicate8 list_update_Cons_numeral)

lemma uint64Bytes32_eq:
  "uint64Bytes32 v = replicate 24 0 @
     [ucast (drop_bit 56 v), ucast (drop_bit 48 v), ucast (drop_bit 40 v), ucast (drop_bit 32 v),
      ucast (drop_bit 24 v), ucast (drop_bit 16 v), ucast (drop_bit 8 v), ucast v]"
  by (simp add: uint64Bytes32_def Let_def PutUint64_zero8)

lemma length_uint64Bytes32: "length (uint64Bytes32 v) = 32"
  by (simp add: uint64Bytes32_eq)

lemma unat_byte_low: "unat (ucast (v :: uint64) :: byte) = unat v mod 256"
  by (simp add: unsigned_ucast_eq take_bit_eq_mod)

lemma foldl_zeros: "foldl (\<lambda>acc b. 256 * acc + unat b) 0 (replicate n (0 :: byte)) = 0"
  by (induction n) simp_all

lemma bigEndianValue_zeros: "bigEndianValue (replicate n 0 @ bs) = bigEndianValue bs"
  by (simp add: bigEndianValue_def foldl_zeros)

lemma be_step: "(m :: nat) div 256 = d \<Longrightarrow> 256 * d + m mod 256 = m"
  by auto

lemma be_arith:
  fixes n :: nat
  assumes "n < 2 ^ 64"
  shows "256 * (256 * (256 * (256 * (256 * (256 * (256 * (n div 2 ^ 56 mod 256) + n div 2 ^ 48 mod 256)
     + n div 2 ^ 40 mod 256) + n div 2 ^ 32 mod 256) + n div 2 ^ 24 mod 256) + n div 2 ^ 16 mod 256)
     + n div 2 ^ 8 mod 256) + n mod 256 = n"
proof -
  have s: "\<And>k. n div 2 ^ (k + 8) = n div 2 ^ k div 256"
    by (simp add: power_add div_mult2_eq)
  have d56: "n div 2 ^ 56 mod 256 = n div 2 ^ 56"
    using assms by (simp add: less_mult_imp_div_less)
  have d48: "256 * (n div 2 ^ 56) + n div 2 ^ 48 mod 256 = n div 2 ^ 48"
    using s [of 48] by (simp only: be_step semiring_norm)
  have d40: "256 * (n div 2 ^ 48) + n div 2 ^ 40 mod 256 = n div 2 ^ 40"
    using s [of 40] by (simp only: be_step semiring_norm)
  have d32: "256 * (n div 2 ^ 40) + n div 2 ^ 32 mod 256 = n div 2 ^ 32"
    using s [of 32] by (simp only: be_step semiring_norm)
  have d24: "256 * (n div 2 ^ 32) + n div 2 ^ 24 mod 256 = n div 2 ^ 24"
    using s [of 24] by (simp only: be_step semiring_norm)
  have d16: "256 * (n div 2 ^ 24) + n div 2 ^ 16 mod 256 = n div 2 ^ 16"
    using s [of 16] by (simp only: be_step semiring_norm)
  have d8: "256 * (n div 2 ^ 16) + n div 2 ^ 8 mod 256 = n div 2 ^ 8"
    using s [of 8] by (simp only: be_step semiring_norm)
  have d0: "256 * (n div 2 ^ 8) + n mod 256 = n"
    by simp
  show ?thesis
    by (simp only: d56 d48 d40 d32 d24 d16 d8 d0)
qed

lemma bigEndianValue_low8:
  "bigEndianValue
     [ucast (drop_bit 56 v), ucast (drop_bit 48 v), ucast (drop_bit 40 v), ucast (drop_bit 32 v),
      ucast (drop_bit 24 v), ucast (drop_bit 16 v), ucast (drop_bit 8 v), ucast (v :: uint64)]
   = unat v"
proof -
  have "unat v < 2 ^ 64"
    using unsigned_less [of v, where ?'a = nat] by simp
  from be_arith [OF this] show ?thesis
    apply (simp only: bigEndianValue_def foldl.simps unat_byte_low mult_zero_right add_0)
    apply (simp only: unat_drop_bit_eq)
    apply (simp only: drop_bit_eq_div)
    done
qed

lemma bigEndianValue_uint64Bytes32: "bigEndianValue (uint64Bytes32 v) = unat v"
  by (simp only: uint64Bytes32_eq bigEndianValue_zeros bigEndianValue_low8)

lemma isBigEndian32_uint64Bytes32: "isBigEndian32 (uint64Bytes32 v) v"
  unfolding isBigEndian32_def
  by (simp add: bigEndianValue_uint64Bytes32 length_uint64Bytes32)
     (simp add: uint64Bytes32_eq bigEndianValue_low8)

lemma uint64Bytes32_inject: "uint64Bytes32 v = uint64Bytes32 w \<Longrightarrow> v = w"
proof -
  assume "uint64Bytes32 v = uint64Bytes32 w"
  then have "bigEndianValue (uint64Bytes32 v) = bigEndianValue (uint64Bytes32 w)"
    by simp
  then have "unat v = unat w"
    by (simp only: bigEndianValue_uint64Bytes32)
  then show "v = w"
    by (rule word_unat_eq_iff [THEN iffD2])
qed

lemma length_Bytes: "length (Bytes a) = 20"
  using Bytes [of a] by simp

lemma encodeForSignature_eq:
  "encodeForSignature cheque =
     Bytes (Contract cheque) @ Bytes (Beneficiary cheque) @ uint64Bytes32 (Serial cheque)
       @ uint64Bytes32 (Amount cheque) @ uint64Bytes32 (Timeout cheque)"
  by (simp add: encodeForSignature_def Let_def)

text \<open>
  Claim C6. \<open>encodeForSignature\<close> returns the twenty bytes of the contract
  address, the twenty bytes of the beneficiary address, and serial, amount and
  timeout each as a 32-byte big-endian integer whose first 24 bytes are zero and
  whose last eight bytes hold the value; the result has 136 bytes.
\<close>

theorem encodeForSignature_layout:
  "\<exists>serialBytes amountBytes timeoutBytes.
     encodeForSignature cheque =
       Bytes (Contract cheque) @ Bytes (Beneficiary cheque)
         @ serialBytes @ amountBytes @ timeoutBytes \<and>
     length (Bytes (Contract cheque)) = 20 \<and>
     length (Bytes (Beneficiary cheque)) = 20 \<and>
     isBigEndian32 serialBytes (Serial cheque) \<and>
     isBigEndian32 amountBytes (Amount cheque) \<and>
     isBigEndian32 timeoutBytes (Timeout cheque) \<and>
     length (encodeForSignature cheque) = 136"
proof (intro exI conjI)
  show "encodeForSignature cheque =
       Bytes (Contract cheque) @ Bytes (Beneficiary cheque)
         @ uint64Bytes32 (Serial cheque) @ uint64Bytes32 (Amount cheque)
         @ uint64Bytes32 (Timeout cheque)"
    by (rule encodeForSignature_eq)
  show "length (encodeForSignature cheque) = 136"
    by (simp add: encodeForSignature_eq length_Bytes length_uint64Bytes32)
qed (simp_all add: length_Bytes isBigEndian32_uint64Bytes32)

text \<open>Equal encodings come from equal contract, beneficiary, serial, amount and
  timeout: the five parts have fixed widths, and each part determines its field.\<close>

lemma encodeForSignature_inject:
  assumes "encodeForSignature a = encodeForSignature b"
  shows "signedFields a = signedFields b"
proof -
  from assms have
    "Bytes (Contract a) = Bytes (Contract b)"
    "Bytes (Beneficiary a) = Bytes (Beneficiary b)"
    "uint64Bytes32 (Serial a) = uint64Bytes32 (Serial b)"
    "uint64Bytes32 (Amount a) = uint64Bytes32 (Amount b)"
    "uint64Bytes32 (Timeout a) = uint64Bytes32 (Timeout b)"
    by (simp_all add: encodeForSignature_eq length_Bytes length_uint64Bytes32)
  then show ?thesis
    by (simp add: signedFields_def Bytes_inject uint64Bytes32_inject)
qed

text \<open>
  Claim C7. Two cheques whose contract, beneficiary, serial, amount and timeout
  differ in some component have different encodings.
\<close>

theorem encodeForSignature_injective:
  "signedFields a \<noteq> signedFields b \<Longrightarrow> encodeForSignature a \<noteq> encodeForSignature b"
  using encodeForSignature_inject by blast

text \<open>The sample addresses are distinct.\<close>

lemma addr_neq: "addrC \<noteq> addrB"
  by transfer simp

theorem encodeForSignature_injective_witness:
  "signedFields cheque1 \<noteq> signedFields cheque2 \<and>
   encodeForSignature cheque1 \<noteq> encodeForSignature cheque2"
proof -
  have "signedFields cheque1 \<noteq> signedFields cheque2"
    by (simp add: signedFields_def cheque1_def cheque2_def)
  with encodeForSignature_injective [of cheque1 cheque2] show ?thesis
    by simp
qed

text \<open>
  Claim C9. Two cheques that agree on contract, beneficiary, serial, amount and
  timeout have the same encoding and the same signing hash, whatever their honey
  and signature fields are.
\<close>

theorem encoding_ignores_honey_and_signature:
  assumes "signedFields a = signedFields b"
  shows "encodeForSignature a = encodeForSignature b \<and> sigHash c a = sigHash c b"
  using assms by (simp add: signedFields_def sigHash_def encodeForSignature_def)

theorem encoding_ignores_honey_and_signature_witness:
  "signedFields cheque1 = signedFields (cheque1\<lparr>Honey := 7, Signature := Some [1, 2, 3]\<rparr>) \<and>
   Honey cheque1 \<noteq> Honey (cheque1\<lparr>Honey := 7, Signature := Some [1, 2, 3]\<rparr>) \<and>
   Signature cheque1 \<noteq> Signature (cheque1\<lparr>Honey := 7, Signature := Some [1, 2, 3]\<rparr>) \<and>
   encodeForSignature cheque1 = encodeForSignature (cheque1\<lparr>Honey := 7, Signature := Some [1, 2, 3]\<rparr>) \<and>
   sigHash toyCrypto cheque1 = sigHash toyCrypto (cheque1\<lparr>Honey := 7, Signature := Some [1, 2, 3]\<rparr>)"
proof -
  have h: "signedFields cheque1 = signedFields (cheque1\<lparr>Honey := 7, Signature := Some [1, 2, 3]\<rparr>)"
    by (simp add: signedFields_def)
  from encoding_ignores_honey_and_signature [OF h, of toyCrypto] h show ?thesis
    by (simp add: cheque1_def)
qed

section \<open>Signing and verifying\<close>

text \<open>Writing the last element of a non-empty slice, as \<^verbatim>\<open>sig[len(sig)-1]\<close> does.\<close>

lemma update_last: "xs \<noteq> [] \<Longrightarrow> xs[length xs - 1 := y] = butlast xs @ [y]"
  by (induction xs rule: rev_induct) simp_all

lemma nth_last: "xs \<noteq> [] \<Longrightarrow> xs ! (length xs - 1) = last xs"
  by (simp add: last_conv_nth)

lemma sigHash_Signature: "sigHash c (cheque\<lparr>Signature := s\<rparr>) = sigHash c cheque"
  by (simp add: sigHash_def encodeForSignature_def)

lemma VerifySig_eq:
  "VerifySig c cheque expectedSigner =
     (case Signature cheque of
        None \<Rightarrow> Inl ErrSigNil
      | Some sig \<Rightarrow>
          if length sig \<noteq> 65 then Inl (ErrSigLength (length sig))
          else (case SigToPub c (sigHash c cheque) (butlast sig @ [last sig - 27]) of
                  Inl err \<Rightarrow> Inl err
                | Inr pubKey \<Rightarrow>
                    if PubkeyToAddress c pubKey \<noteq> expectedSigner
                    then Inl ErrInvalidChequeSignature
                    else Inr ()))"
proof (cases "Signature cheque")
  case None
  then show ?thesis
    by (simp add: VerifySig_def VerifySig_run_def)
next
  case (Some sig)
  show ?thesis
  proof (cases "length sig = 65")
    case True
    then have "sig \<noteq> []"
      by auto
    from update_last [OF this, of "last sig - 27"] nth_last [OF this] True
    have "sig[64 := sig ! 64 - 27] = butlast sig @ [last sig - 27]"
      by simp
    with Some True show ?thesis
      by (simp add: VerifySig_def VerifySig_run_def Let_def)
  next
    case False
    with Some show ?thesis
      by (simp add: VerifySig_def VerifySig_run_def)
  qed
qed

lemma Sign_eq:
  "Sign c cheque prv =
     (case crypto_Sign c (sigHash c cheque) prv of
        Inl err \<Rightarrow> Inl err
      | Inr sig \<Rightarrow> if sig = [] then Inl PanicIndexOutOfRange
                   else Inr (butlast sig @ [last sig + 27]))"
  by (simp add: Sign_def update_last nth_last split: sum.splits del: One_nat_def)

lemma Sign_then_VerifySig:
  assumes "crypto_Sign c (sigHash c cheque) prv = Inr rawSig"
    and "length rawSig = 65"
    and "SigToPub c (sigHash c cheque) rawSig = Inr pub"
  shows "Sign c cheque prv = Inr (butlast rawSig @ [last rawSig + 27])"
    and "VerifySig c (cheque\<lparr>Signature := Some (butlast rawSig @ [last rawSig + 27])\<rparr>)
           (PubkeyToAddress c pub) = Inr ()"
proof -
  from assms(2) have ne: "rawSig \<noteq> []"
    by auto
  with assms(1) show "Sign c cheque prv = Inr (butlast rawSig @ [last rawSig + 27])"
    by (simp add: Sign_eq)
  from ne have "butlast rawSig @ [last rawSig] = rawSig"
    by simp
  with assms(2,3) show "VerifySig c (cheque\<lparr>Signature := Some (butlast rawSig @ [last rawSig + 27])\<rparr>)
           (PubkeyToAddress c pub) = Inr ()"
    by (simp add: VerifySig_eq sigHash_Signature)
qed

text \<open>The stand-in primitives: a signature has 65 bytes and recovery returns the
  signer's public key.\<close>

lemma toySign_length: "toySign h prv = Inr sig \<Longrightarrow> length sig = 65"
  by (auto simp: toySign_def length_padTo)

lemma toySigToPub_toySign:
  "toySign h prv = Inr sig \<Longrightarrow> toySigToPub h sig = Inr (padTo 20 prv)"
  by (auto simp: toySign_def toySigToPub_def length_padTo)

lemma toySign_total: "\<exists>sig. toySign h prv = Inr sig"
  by (simp add: toySign_def)

lemma VerifySig_toySigned: "VerifySig toyCrypto (toySigned cheque) addrK = Inr ()"
proof -
  obtain rawSig where r: "toySign (sigHash toyCrypto cheque) keyK = Inr rawSig"
    using toySign_total by blast
  have h1: "crypto_Sign toyCrypto (sigHash toyCrypto cheque) keyK = Inr rawSig"
    using r by (simp add: toyCrypto_def)
  have h2: "length rawSig = 65"
    using r by (rule toySign_length)
  have h3: "SigToPub toyCrypto (sigHash toyCrypto cheque) rawSig = Inr (padTo 20 keyK)"
    using toySigToPub_toySign [OF r] by (simp add: toyCrypto_def)
  have a: "PubkeyToAddress toyCrypto (padTo 20 keyK) = addrK"
    by (simp add: toyCrypto_def addrK_def toyAddress_def padTo_def keyK_def)
  from Sign_then_VerifySig [OF h1 h2 h3] a show ?thesis
    by (simp add: toySigned_def)
qed

lemma toySigned_fields:
  "Contract (toySigned cheque) = Contract cheque"
  "Beneficiary (toySigned cheque) = Beneficiary cheque"
  "Timeout (toySigned cheque) = Timeout cheque"
  by (simp_all add: toySigned_def)

lemma Signature_toySigned: "\<exists>sig. Signature (toySigned cheque) = Some sig \<and> length sig = 65"
  by (simp add: toySigned_def Sign_eq toyCrypto_def toySign_def length_padTo)

text \<open>
  Claim C4. \<open>VerifySig\<close> returns the nil-signature error when the signature is
  absent and the invalid-length error when its length is not 65; in both cases
  it makes no call of the recovery primitive. A recovery call is made exactly
  when the signature is present and has 65 bytes.
\<close>

theorem VerifySig_signature_shape:
  "(Signature cheque = None \<longrightarrow>
      VerifySig c cheque expectedSigner = Inl ErrSigNil \<and>
      fst (VerifySig_run c cheque expectedSigner) = []) \<and>
   (\<forall>sig. Signature cheque = Some sig \<and> length sig \<noteq> 65 \<longrightarrow>
      VerifySig c cheque expectedSigner = Inl (ErrSigLength (length sig)) \<and>
      fst (VerifySig_run c cheque expectedSigner) = []) \<and>
   (fst (VerifySig_run c cheque expectedSigner) \<noteq> [] \<longleftrightarrow>
      (\<exists>sig. Signature cheque = Some sig \<and> length sig = 65))"
  by (auto simp: VerifySig_def VerifySig_run_def Let_def split: option.splits)

theorem VerifySig_signature_shape_witness:
  "VerifySig toyCrypto cheque1 addrK = Inl ErrSigNil \<and>
   VerifySig toyCrypto (cheque1\<lparr>Signature := Some [1, 2, 3]\<rparr>) addrK = Inl (ErrSigLength 3) \<and>
   fst (VerifySig_run toyCrypto (toySigned cheque1) addrK) \<noteq> []"
  using VerifySig_signature_shape [of cheque1 toyCrypto addrK]
    VerifySig_signature_shape [of "cheque1\<lparr>Signature := Some [1, 2, 3]\<rparr>" toyCrypto addrK]
    VerifySig_signature_shape [of "toySigned cheque1" toyCrypto addrK]
    Signature_toySigned [of cheque1]
  by (simp add: cheque1_def)

text \<open>
  Claim C3. Let the signing primitive succeed on the cheque's hash with a 65-byte
  signature from which the recovery primitive returns the key's public key (the
  contract of \<^verbatim>\<open>crypto.Sign\<close> and \<^verbatim>\<open>crypto.SigToPub\<close>). Then \<open>Sign\<close> returns
  that signature with 27 added to its last byte, and \<open>VerifySig\<close> of the cheque
  carrying it, against the address of the key, succeeds: the 27 subtracted
  before recovery undoes the 27 added after signing.
\<close>

theorem Sign_VerifySig_roundtrip:
  assumes "crypto_Sign c (sigHash c cheque) prv = Inr rawSig"
    and "length rawSig = 65"
    and "SigToPub c (sigHash c cheque) rawSig = Inr (PublicKey c prv)"
  shows "\<exists>sig. Sign c cheque prv = Inr sig \<and> length sig = 65 \<and>
           butlast sig = butlast rawSig \<and> last sig = last rawSig + 27 \<and>
           VerifySig c (cheque\<lparr>Signature := Some sig\<rparr>) (PubkeyToAddress c (PublicKey c prv))
             = Inr ()"
  using Sign_then_VerifySig [OF assms] assms(2) by simp

theorem Sign_VerifySig_roundtrip_witness:
  "\<exists>sig. Sign toyCrypto cheque1 keyK = Inr sig \<and> length sig = 65 \<and> last sig = 27 \<and>
     VerifySig toyCrypto (cheque1\<lparr>Signature := Some sig\<rparr>) addrK = Inr ()"
proof -
  obtain rawSig where r: "toySign (sigHash toyCrypto cheque1) keyK = Inr rawSig"
    using toySign_total by blast
  have h1: "crypto_Sign toyCrypto (sigHash toyCrypto cheque1) keyK = Inr rawSig"
    using r by (simp add: toyCrypto_def)
  have h2: "length rawSig = 65"
    using r by (rule toySign_length)
  have h3: "SigToPub toyCrypto (sigHash toyCrypto cheque1) rawSig = Inr (PublicKey toyCrypto keyK)"
    using toySigToPub_toySign [OF r] by (simp add: toyCrypto_def)
  have l: "last rawSig = 0"
    using r by (auto simp: toySign_def)
  have a: "PubkeyToAddress toyCrypto (PublicKey toyCrypto keyK) = addrK"
    by (simp add: toyCrypto_def addrK_def toyAddress_def padTo_def keyK_def)
  from Sign_VerifySig_roundtrip [OF h1 h2 h3] l a show ?thesis
    by auto
qed

section \<open>Properties of a single cheque\<close>

text \<open>
  Claim C2. \<open>verifyChequeProperties\<close> succeeds exactly when the cheque's contract
  is the peer's contract address, \<open>VerifySig\<close> against the peer's beneficiary
  succeeds, the cheque's beneficiary is the expected one and the timeout is 0;
  otherwise it returns an error. A cheque with timeout 5 that meets the first
  three conditions is rejected for its timeout.
\<close>

theorem verifyChequeProperties_iff:
  "(verifyChequeProperties c cheque p expectedBeneficiary = Inr () \<longleftrightarrow>
      Contract cheque = contractAddress p \<and>
      VerifySig c cheque (beneficiary p) = Inr () \<and>
      Beneficiary cheque = expectedBeneficiary \<and>
      Timeout cheque = 0) \<and>
   (\<not> (Contract cheque = contractAddress p \<and>
       VerifySig c cheque (beneficiary p) = Inr () \<and>
       Beneficiary cheque = expectedBeneficiary \<and>
       Timeout cheque = 0) \<longrightarrow>
      (\<exists>err. verifyChequeProperties c cheque p expectedBeneficiary = Inl err)) \<and>
   (Contract cheque = contractAddress p \<and>
    VerifySig c cheque (beneficiary p) = Inr () \<and>
    Beneficiary cheque = expectedBeneficiary \<and>
    Timeout cheque = 5 \<longrightarrow>
      verifyChequeProperties c cheque p expectedBeneficiary = Inl (ErrWrongTimeout 5))"
  by (auto simp: verifyChequeProperties_def split: sum.splits)

theorem verifyChequeProperties_iff_witness:
  "verifyChequeProperties toyCrypto (toySigned cheque1) peer1 addrB = Inr () \<and>
   verifyChequeProperties toyCrypto (toySigned (cheque1\<lparr>Timeout := 5\<rparr>)) peer1 addrB
     = Inl (ErrWrongTimeout 5) \<and>
   (\<exists>err. verifyChequeProperties toyCrypto (toySigned cheque1) peer1 addrC = Inl err)"
  using verifyChequeProperties_iff [of toyCrypto "toySigned cheque1" peer1 addrB]
    verifyChequeProperties_iff [of toyCrypto "toySigned (cheque1\<lparr>Timeout := 5\<rparr>)" peer1 addrB]
    verifyChequeProperties_iff [of toyCrypto "toySigned cheque1" peer1 addrC]
    VerifySig_toySigned [of cheque1] VerifySig_toySigned [of "cheque1\<lparr>Timeout := 5\<rparr>"]
    addr_neq
  by (simp add: toySigned_fields peer1_def cheque1_def)

section \<open>Equality of cheques\<close>

text \<open>\<open>Equal\<close> compares serial, beneficiary, amount, timeout, honey and the bytes of
  the signature. It is reflexive and symmetric.\<close>

lemma Equal_iff:
  "Equal cheque other \<longleftrightarrow>
     Serial cheque = Serial other \<and> Beneficiary cheque = Beneficiary other \<and>
     Amount cheque = Amount other \<and> Timeout cheque = Timeout other \<and>
     Honey cheque = Honey other \<and>
     sliceBytes (Signature cheque) = sliceBytes (Signature other)"
  by (simp add: Equal_def bytes_Equal_def)

lemma Equal_refl: "Equal cheque cheque"
  by (simp add: Equal_iff)

lemma Equal_sym: "Equal cheque other = Equal other cheque"
  by (auto simp: Equal_iff)

text \<open>
  Claim C5, at a concrete input: two cheques that differ in the contract field and
  in nothing else. \<open>Equal\<close> does not read \<open>Contract\<close> and returns true on them.
\<close>

theorem Equal_ignores_Contract:
  "Contract cheque1 \<noteq> Contract (cheque1\<lparr>Contract := addrB\<rparr>) \<and>
   Equal cheque1 (cheque1\<lparr>Contract := addrB\<rparr>)"
  using addr_neq by (simp add: Equal_iff cheque1_def)

section \<open>Progression against the last cheque\<close>

text \<open>
  Claim C1. With a previous cheque present, \<open>verifyChequeAgainstLast\<close> fails
  whenever the serial is not larger than the previous serial or the amount is not
  larger than the previous amount; when both are strictly larger and the
  difference of the amounts is the expected amount, it succeeds and returns that
  difference.
\<close>

theorem verifyChequeAgainstLast_monotonic:
  "((Serial cheque \<le> Serial lastC \<or> Amount cheque \<le> Amount lastC) \<longrightarrow>
      (\<exists>err. verifyChequeAgainstLast cheque (Some lastC) expectedAmount = Inl err)) \<and>
   (Serial lastC < Serial cheque \<and> Amount lastC < Amount cheque \<and>
    Amount cheque - Amount lastC = expectedAmount \<longrightarrow>
      verifyChequeAgainstLast cheque (Some lastC) expectedAmount
        = Inr (Amount cheque - Amount lastC))"
  by (auto simp: verifyChequeAgainstLast_def Let_def)

theorem verifyChequeAgainstLast_monotonic_witness:
  "Serial cheque1 < Serial cheque2 \<and> Amount cheque1 < Amount cheque2 \<and>
   Amount cheque2 - Amount cheque1 = 50 \<and>
   verifyChequeAgainstLast cheque2 (Some cheque1) 50 = Inr 50 \<and>
   Serial cheque3 \<le> Serial cheque2 \<and>
   (\<exists>err. verifyChequeAgainstLast cheque3 (Some cheque2) 50 = Inl err)"
  using verifyChequeAgainstLast_monotonic [of cheque2 cheque1 50]
    verifyChequeAgainstLast_monotonic [of cheque3 cheque2 50]
  by (simp add: cheque1_def cheque2_def cheque3_def)

text \<open>
  Claim C8. Without a previous cheque the result depends only on the amount: the
  call succeeds exactly when the cheque's amount is the expected amount, and
  then returns the cheque's amount; the serial is not looked at.
\<close>

theorem verifyChequeAgainstLast_first:
  "verifyChequeAgainstLast cheque None expectedAmount =
     (if Amount cheque = expectedAmount then Inr (Amount cheque)
      else Inl (ErrUnexpectedAmount expectedAmount (Amount cheque))) \<and>
   verifyChequeAgainstLast (cheque\<lparr>Serial := serial'\<rparr>) None expectedAmount =
     verifyChequeAgainstLast cheque None expectedAmount \<and>
   ((\<exists>a. verifyChequeAgainstLast cheque None expectedAmount = Inr a) \<longleftrightarrow>
      Amount cheque = expectedAmount)"
  by (auto simp: verifyChequeAgainstLast_def Let_def)

theorem verifyChequeAgainstLast_first_witness:
  "verifyChequeAgainstLast cheque1 None 100 = Inr 100 \<and>
   verifyChequeAgainstLast cheque1 None 50 = Inl (ErrUnexpectedAmount 50 100)"
  using verifyChequeAgainstLast_first [of cheque1 100 0]
    verifyChequeAgainstLast_first [of cheque1 50 0]
  by (simp add: cheque1_def)

text \<open>The \<^verbatim>\<open>uint64\<close> subtraction is exact when the subtrahend is not larger.\<close>

lemma uint_sub_exact:
  fixes x y :: uint64
  assumes "\<not> x \<le> y"
  shows "uint (x - y) = uint x - uint y"
proof -
  from assms have "y \<le> x"
    by simp
  then show ?thesis
    by (rule uint_minus_simple_alt [THEN iffD1])
qed

text \<open>
  Claim C10. With a previous cheque present, every amount the function computes
  by the \<^verbatim>\<open>uint64\<close> subtraction (the amount returned on success, or the amount
  reported in the unexpected-amount error) comes from a call in which serial and
  amount are strictly larger than the previous ones, and is the exact difference
  of the two amounts as integers: the guards return before the subtraction, so
  it does not wrap. Conversely, whenever serial and amount are strictly larger,
  the call ends in one of these two outcomes with that exact difference.
\<close>

theorem verifyChequeAgainstLast_no_wrap:
  "(verifyChequeAgainstLast cheque (Some lastC) expectedAmount = Inr actualAmount \<or>
    verifyChequeAgainstLast cheque (Some lastC) expectedAmount
      = Inl (ErrUnexpectedAmount expected actualAmount) \<longrightarrow>
      Serial lastC < Serial cheque \<and> Amount lastC < Amount cheque \<and>
      uint actualAmount = uint (Amount cheque) - uint (Amount lastC)) \<and>
   (Serial lastC < Serial cheque \<and> Amount lastC < Amount cheque \<longrightarrow>
      (\<exists>a. (verifyChequeAgainstLast cheque (Some lastC) expectedAmount = Inr a \<or>
            verifyChequeAgainstLast cheque (Some lastC) expectedAmount
              = Inl (ErrUnexpectedAmount expectedAmount a)) \<and>
           uint a = uint (Amount cheque) - uint (Amount lastC)))"
proof (intro conjI impI)
  assume r: "verifyChequeAgainstLast cheque (Some lastC) expectedAmount = Inr actualAmount \<or>
    verifyChequeAgainstLast cheque (Some lastC) expectedAmount
      = Inl (ErrUnexpectedAmount expected actualAmount)"
  then have g: "\<not> Serial cheque \<le> Serial lastC" "\<not> Amount cheque \<le> Amount lastC"
    and a: "actualAmount = Amount cheque - Amount lastC"
    by (auto simp: verifyChequeAgainstLast_def Let_def split: if_splits)
  from g show "Serial lastC < Serial cheque" and "Amount lastC < Amount cheque"
    by simp_all
  from g(2) a show "uint actualAmount = uint (Amount cheque) - uint (Amount lastC)"
    by (simp add: uint_sub_exact)
next
  assume "Serial lastC < Serial cheque \<and> Amount lastC < Amount cheque"
  then have g: "\<not> Serial cheque \<le> Serial lastC" "\<not> Amount cheque \<le> Amount lastC"
    by (auto simp: not_le)
  from g uint_sub_exact [OF g(2)]
  show "\<exists>a. (verifyChequeAgainstLast cheque (Some lastC) expectedAmount = Inr a \<or>
            verifyChequeAgainstLast cheque (Some lastC) expectedAmount
              = Inl (ErrUnexpectedAmount expectedAmount a)) \<and>
           uint a = uint (Amount cheque) - uint (Amount lastC)"
    by (auto simp: verifyChequeAgainstLast_def Let_def)
qed

theorem verifyChequeAgainstLast_no_wrap_witness:
  "verifyChequeAgainstLast cheque2 (Some cheque1) 50 = Inr 50 \<and>
   verifyChequeAgainstLast cheque2 (Some cheque1) 40 = Inl (ErrUnexpectedAmount 40 50) \<and>
   Serial cheque1 < Serial cheque2 \<and> Amount cheque1 < Amount cheque2 \<and>
   uint (50 :: uint64) = uint (Amount cheque2) - uint (Amount cheque1) \<and>
   (\<exists>a. (verifyChequeAgainstLast cheque2 (Some cheque1) 50 = Inr a \<or>
         verifyChequeAgainstLast cheque2 (Some cheque1) 50 = Inl (ErrUnexpectedAmount 50 a)) \<and>
        uint a = uint (Amount cheque2) - uint (Amount cheque1))"
proof -
  have ok: "verifyChequeAgainstLast cheque2 (Some cheque1) 50 = Inr 50"
    and bad: "verifyChequeAgainstLast cheque2 (Some cheque1) 40 = Inl (ErrUnexpectedAmount 40 50)"
    by (simp_all add: verifyChequeAgainstLast_def cheque1_def cheque2_def not_le)
  from verifyChequeAgainstLast_no_wrap [of cheque2 cheque1 50 50 50]
    verifyChequeAgainstLast_no_wrap [of cheque2 cheque1 40 50 40] ok bad
  show ?thesis
    by simp
qed

end
